theory Spec2Isabelle
  imports Main
begin

section \<open>Data model of the backend (src/BE/main.py)\<close>

text \<open>
  Text is modelled as \<open>string\<close>; one list element stands for one character of a Python
  \<open>str\<close>, so \<open>take 200\<close> is the slice \<open>[:200]\<close> and \<open>length\<close> is \<open>len\<close>.

  A stored turn is the dictionary \<open>{"role": ..., "content": ...}\<close> that the query handler
  appends to the session's list.
\<close>

record turn =
  role :: string
  content :: string

text \<open>The two message classes of the inference SDK that the handler instantiates.\<close>

datatype message = SystemMessage string | UserMessage string

text \<open>
  A search result is a dictionary read only through \<open>result.get(key, default)\<close>. The index
  schema (src/ingestion/ingest.py, \<open>create_index\<close>) declares the fields \<open>id\<close>, \<open>content\<close>
  and \<open>filename\<close> as strings, so a hit maps field names to text; a field may be absent.
\<close>

type_synonym hit = "string \<rightharpoonup> string"

definition dict_get :: "('k \<rightharpoonup> 'v) \<Rightarrow> 'k \<Rightarrow> 'v \<Rightarrow> 'v" where
  "dict_get d k dflt = (case d k of None \<Rightarrow> dflt | Some v \<Rightarrow> v)"

text \<open>An entry of the \<open>sources\<close> list of the response: \<open>{"filename": ..., "content": ...}\<close>.\<close>

record source =
  source_filename :: string
  source_content :: string

text \<open>
  The request and response models. \<open>session_id\<close> is a string: the field's default
  \<open>"default"\<close> is filled in before the handler runs, and a request that sends \<open>null\<close>
  for it is not covered here (the handler would key the dictionary with \<open>None\<close> and then
  fail to build its response). \<open>max_results\<close> is only handed on to the search client.
\<close>

record QueryRequest =
  query_text :: string
  session_id :: string
  max_results :: "int option"

record QueryResponse =
  resp_answer :: string
  resp_sources :: "source list"
  resp_session_id :: string

text \<open>
  An exception is represented by its text \<open>str(e)\<close>, which is all the handler uses of it.
  A handler either raises an \<open>HTTPException\<close> or returns a body; a body that is returned
  normally is sent with status 200.
\<close>

type_synonym exn = string

datatype http_exception = HTTPException (status_code: nat) (detail: string)

definition http_status :: "http_exception + 'a \<Rightarrow> nat" where
  "http_status r = (case r of Inl e \<Rightarrow> status_code e | Inr body \<Rightarrow> 200)"

text \<open>
  The two external clients. \<open>search_client.search(search_text, top)\<close> followed by the
  iteration over its results either raises or yields the list of hits;
  \<open>openai_client.complete(messages, ...)\<close> followed by \<open>response.choices[0].message.content\<close>
  either raises or yields the answer text. The remaining arguments of \<open>complete\<close>
  (\<open>max_tokens\<close>, \<open>temperature\<close>, \<open>top_p\<close>, \<open>model\<close>) are constants of the module.
  A client that was not configured is \<open>None\<close>.
\<close>

type_synonym search_client = "string \<Rightarrow> int option \<Rightarrow> exn + hit list"
type_synonym openai_client = "message list \<Rightarrow> exn + string"

text \<open>The module-level dictionary \<open>conversations\<close>: session identifier to list of turns.\<close>

type_synonym conversations = "string \<rightharpoonup> turn list"

text \<open>Values of the JSON objects returned by the small endpoints.\<close>

datatype json = JStr string | JBool bool

section \<open>Python built-ins used by the handlers\<close>

text \<open>\<open>sep.join(xs)\<close>\<close>

fun join :: "'a list \<Rightarrow> 'a list list \<Rightarrow> 'a list" where
  "join sep [] = []"
| "join sep [x] = x"
| "join sep (x # y # ys) = x @ sep @ join sep (y # ys)"

text \<open>
  \<open>xs[-n:]\<close> for a positive \<open>n\<close>: the slice starts at \<open>max(len(xs) - n, 0)\<close>; the
  subtraction on \<open>nat\<close> truncates at 0 in the same way.
\<close>

definition slice_last :: "nat \<Rightarrow> 'a list \<Rightarrow> 'a list" where
  "slice_last n xs = drop (length xs - n) xs"

section \<open>The query handler\<close>

text \<open>
  Lines 115 to 123: the loop over the search results, which appends to \<open>contexts\<close> and to
  \<open>sources\<close>.
\<close>

fun collect_results :: "hit list \<Rightarrow> string list \<times> source list \<Rightarrow> string list \<times> source list" where
  "collect_results [] (contexts, sources) = (contexts, sources)"
| "collect_results (result # rest) (contexts, sources) =
     collect_results rest
       (contexts @ [dict_get result ''content'' ''''],
        sources @ [\<lparr>source_filename = dict_get result ''filename'' ''Unknown'',
                     source_content = take 200 (dict_get result ''content'' '''') @ ''...''\<rparr>])"

definition system_prompt :: string where
  "system_prompt =
     ''You are a helpful AI assistant. Answer the user's question based on the provided context. '' @
     ''If the context doesn't contain relevant information, say so politely. '' @
     ''Keep your answers clear and concise.''"

text \<open>Lines 144 to 150: the loop over the window of the history, appending to \<open>messages\<close>.\<close>

fun add_history :: "turn list \<Rightarrow> message list \<Rightarrow> message list" where
  "add_history [] messages = messages"
| "add_history (msg # rest) messages =
     add_history rest
       (messages @ [if role msg = ''user'' then UserMessage (content msg)
                    else SystemMessage (''Assistant: '' @ content msg)])"

text \<open>
  What one call of the handler does: the response (or the exception raised), the dictionary
  \<open>conversations\<close> afterwards, and the argument of the call \<open>openai_client.complete\<close> when
  that call is reached (\<open>None\<close> when it is not).
\<close>

record outcome =
  response :: "http_exception + QueryResponse"
  store :: conversations
  sent :: "message list option"

definition query ::
  "search_client option \<Rightarrow> openai_client option \<Rightarrow> QueryRequest \<Rightarrow> conversations \<Rightarrow> outcome" where
  "query search_client openai_client request convs =
    (case search_client of
       None \<Rightarrow>
         \<lparr>response = Inl (HTTPException 500 ''Azure Search client not configured''),
          store = convs, sent = None\<rparr>
     | Some search \<Rightarrow>
    (case openai_client of
       None \<Rightarrow>
         \<lparr>response = Inl (HTTPException 500 ''Azure OpenAI client not configured''),
          store = convs, sent = None\<rparr>
     | Some complete \<Rightarrow>
    (case search (query_text request) (max_results request) of
       Inl e \<Rightarrow>
         \<lparr>response = Inl (HTTPException 500 (''Error processing query: '' @ e)),
          store = convs, sent = None\<rparr>
     | Inr search_results \<Rightarrow>
        (let (contexts, sources) = collect_results search_results ([], []);
             context_str = (if contexts \<noteq> [] then join ''\<newline>\<newline>'' contexts
                            else ''No relevant documents found.'');
             convs1 = (if convs (session_id request) = None
                       then convs(session_id request \<mapsto> []) else convs);
             conversation_history = (case convs1 (session_id request) of
                                       Some h \<Rightarrow> h | None \<Rightarrow> []);
             messages = add_history (slice_last 5 conversation_history)
                          [SystemMessage system_prompt];
             user_message = ''Context:\<newline>'' @ context_str @
                            ''\<newline>\<newline>Question: '' @ query_text request;
             messages = messages @ [UserMessage user_message]
         in case complete messages of
              Inl e \<Rightarrow>
                \<lparr>response = Inl (HTTPException 500 (''Error processing query: '' @ e)),
                 store = convs1, sent = Some messages\<rparr>
            | Inr answer \<Rightarrow>
                \<lparr>response = Inr \<lparr>resp_answer = answer, resp_sources = sources,
                                   resp_session_id = session_id request\<rparr>,
                 store = convs1(session_id request \<mapsto>
                           conversation_history @
                             [\<lparr>role = ''user'', content = query_text request\<rparr>,
                              \<lparr>role = ''assistant'', content = answer\<rparr>]),
                 sent = Some messages\<rparr>))))"

section \<open>The conversation and health endpoints\<close>

definition clear_conversation ::
  "string \<Rightarrow> conversations \<Rightarrow> (http_exception + (string \<times> json) list) \<times> conversations" where
  "clear_conversation sid convs =
     (if convs sid \<noteq> None
      then (Inr [(''message'', JStr (''Conversation history cleared for session '' @ sid))],
            convs(sid := None))
      else (Inr [(''message'', JStr (''No conversation found for session '' @ sid))], convs))"

record conversation_view =
  view_session_id :: string
  view_messages :: "turn list"

definition get_conversation :: "string \<Rightarrow> conversations \<Rightarrow> conversation_view" where
  "get_conversation sid convs =
     \<lparr>view_session_id = sid, view_messages = dict_get convs sid []\<rparr>"

definition root :: "search_client option \<Rightarrow> openai_client option \<Rightarrow> (string \<times> json) list" where
  "root search_client openai_client =
     [(''message'', JStr ''RAG Backend API is running''),
      (''status'', JStr ''healthy''),
      (''search_configured'', JBool (search_client \<noteq> None)),
      (''openai_configured'', JBool (openai_client \<noteq> None))]"

section \<open>The ingestion script (src/ingestion/ingest.py)\<close>

text \<open>\<open>s.rfind(c)\<close> for a single character: the last position of \<open>c\<close>, \<open>None\<close> for -1.\<close>

fun rfind :: "'a \<Rightarrow> 'a list \<Rightarrow> nat option" where
  "rfind c [] = None"
| "rfind c (x # xs) =
     (case rfind c xs of
        Some i \<Rightarrow> Some (Suc i)
      | None \<Rightarrow> if x = c then Some 0 else None)"

text \<open>
  \<open>PurePath.stem\<close> on a file name: the name up to its last dot, unless that dot is the
  first or the last character of the name.
\<close>

definition stem :: "string \<Rightarrow> string" where
  "stem name =
     (case rfind (CHR ''.'') name of
        None \<Rightarrow> name
      | Some i \<Rightarrow> if 0 < i \<and> i < length name - 1 then take i name else name)"

text \<open>The pattern \<open>*.txt\<close>: any characters, then the four characters \<open>.txt\<close>.\<close>

definition matches_txt :: "string \<Rightarrow> bool" where
  "matches_txt name = (4 \<le> length name \<and> drop (length name - 4) name = ''.txt'')"

text \<open>
  The data directory: its entries in the order the directory is listed, each with the result
  of opening the entry and reading it as UTF-8 text (an exception or the text).
\<close>

type_synonym directory = "(string \<times> (exn + string)) list"

definition glob_txt :: "directory \<Rightarrow> directory" where
  "glob_txt data_dir = filter (\<lambda>entry. matches_txt (fst entry)) data_dir"

record document =
  doc_id :: string
  doc_filename :: string
  doc_content :: string

fun read_files :: "directory \<Rightarrow> document list \<Rightarrow> exn + document list" where
  "read_files [] documents = Inr documents"
| "read_files ((name, opened) # rest) documents =
     (case opened of
        Inl e \<Rightarrow> Inl e
      | Inr text \<Rightarrow>
          read_files rest
            (documents @ [\<lparr>doc_id = stem name, doc_filename = name, doc_content = text\<rparr>]))"

definition read_documents :: "directory \<Rightarrow> exn + document list" where
  "read_documents data_dir = read_files (glob_txt data_dir) []"

section \<open>Example data\<close>

text \<open>
  The scenario of the specification: one indexed document, found by the query
  \<open>What is Azure AI Search?\<close> in session \<open>s1\<close>; next to it a hit that carries no fields,
  a session with five earlier exchanges, and clients that raise.
\<close>

definition example_hit :: hit where
  "example_hit =
     [''filename'' \<mapsto> ''doc1.txt'',
      ''content'' \<mapsto> ''Azure AI Search is a managed cloud search service.'']"

definition bare_hit :: hit where
  "bare_hit = Map.empty"

definition example_search :: search_client where
  "example_search search_text limit = Inr [example_hit, bare_hit]"

definition empty_search :: search_client where
  "empty_search search_text limit = Inr []"

definition failing_search :: search_client where
  "failing_search search_text limit = Inl ''connection refused''"

definition example_complete :: openai_client where
  "example_complete msgs = Inr ''A cloud search service.''"

definition failing_complete :: openai_client where
  "failing_complete msgs = Inl ''timed out''"

definition example_request :: QueryRequest where
  "example_request =
     \<lparr>query_text = ''What is Azure AI Search?'', session_id = ''s1'', max_results = Some 3\<rparr>"

definition five_exchanges :: "turn list" where
  "five_exchanges =
     [\<lparr>role = ''user'', content = ''q1''\<rparr>, \<lparr>role = ''assistant'', content = ''a1''\<rparr>,
      \<lparr>role = ''user'', content = ''q2''\<rparr>, \<lparr>role = ''assistant'', content = ''a2''\<rparr>,
      \<lparr>role = ''user'', content = ''q3''\<rparr>, \<lparr>role = ''assistant'', content = ''a3''\<rparr>,
      \<lparr>role = ''user'', content = ''q4''\<rparr>, \<lparr>role = ''assistant'', content = ''a4''\<rparr>,
      \<lparr>role = ''user'', content = ''q5''\<rparr>, \<lparr>role = ''assistant'', content = ''a5''\<rparr>]"

definition example_store :: conversations where
  "example_store = [''s1'' \<mapsto> five_exchanges]"

definition one_exchange_store :: conversations where
  "one_exchange_store =
     [''s1'' \<mapsto> [\<lparr>role = ''user'', content = ''q1''\<rparr>,
                     \<lparr>role = ''assistant'', content = ''a1''\<rparr>]]"

definition example_directory :: directory where
  "example_directory =
     [(''notes.txt'', Inr ''first document''),
      (''readme.md'', Inr ''not indexed''),
      (''archive.tar.txt'', Inr ''second document'')]"

definition example_response :: QueryResponse where
  "example_response =
     \<lparr>resp_answer = ''A cloud search service.'',
      resp_sources =
        [\<lparr>source_filename = ''doc1.txt'',
          source_content = ''Azure AI Search is a managed cloud search service....''\<rparr>,
         \<lparr>source_filename = ''Unknown'', source_content = ''...''\<rparr>],
      resp_session_id = ''s1''\<rparr>"

section \<open>The loops as maps, and the handler after a successful search\<close>

lemma collect_results_map:
  "collect_results hits (contexts, sources) =
     (contexts @ map (\<lambda>h. dict_get h ''content'' '''') hits,
      sources @ map (\<lambda>h. \<lparr>source_filename = dict_get h ''filename'' ''Unknown'',
                             source_content = take 200 (dict_get h ''content'' '''') @ ''...''\<rparr>) hits)"
  by (induction hits arbitrary: contexts sources) simp_all

lemma add_history_map:
  "add_history turns messages =
     messages @ map (\<lambda>t. if role t = ''user'' then UserMessage (content t)
                          else SystemMessage (''Assistant: '' @ content t)) turns"
  by (induction turns arbitrary: messages) simp_all

lemma query_after_search:
  assumes "search (query_text request) (max_results request) = Inr hits"
  shows "query (Some search) (Some complete) request convs =
     (let history = dict_get convs (session_id request) [];
          msgs = SystemMessage system_prompt #
            map (\<lambda>t. if role t = ''user'' then UserMessage (content t)
                     else SystemMessage (''Assistant: '' @ content t))
               (slice_last 5 history) @
            [UserMessage (''Context:\<newline>'' @
              (if hits = [] then ''No relevant documents found.''
               else join ''\<newline>\<newline>'' (map (\<lambda>h. dict_get h ''content'' '''') hits)) @
              ''\<newline>\<newline>Question: '' @ query_text request)]
      in case complete msgs of
           Inl e \<Rightarrow>
             \<lparr>response = Inl (HTTPException 500 (''Error processing query: '' @ e)),
              store = convs(session_id request \<mapsto> history), sent = Some msgs\<rparr>
         | Inr answer \<Rightarrow>
             \<lparr>response = Inr \<lparr>resp_answer = answer,
                 resp_sources = map (\<lambda>h. \<lparr>source_filename = dict_get h ''filename'' ''Unknown'',
                     source_content = take 200 (dict_get h ''content'' '''') @ ''...''\<rparr>) hits,
                 resp_session_id = session_id request\<rparr>,
              store = convs(session_id request \<mapsto> history @
                 [\<lparr>role = ''user'', content = query_text request\<rparr>,
                  \<lparr>role = ''assistant'', content = answer\<rparr>]),
              sent = Some msgs\<rparr>)"
proof -
  have keep: "convs(session_id request \<mapsto> h) = convs"
    if "convs (session_id request) = Some h" for h
    using that by (rule map_upd_triv)
  show ?thesis
    using assms keep
    by (simp add: query_def collect_results_map add_history_map dict_get_def Let_def
             split: sum.splits option.splits)
qed

lemma query_parts:
  assumes "search (query_text request) (max_results request) = Inr hits"
  shows "\<exists>msgs.
    sent (query (Some search) (Some complete) request convs) = Some msgs \<and>
    response (query (Some search) (Some complete) request convs) =
       (case complete msgs of
          Inl e \<Rightarrow> Inl (HTTPException 500 (''Error processing query: '' @ e))
        | Inr answer \<Rightarrow>
            Inr \<lparr>resp_answer = answer,
                 resp_sources = map (\<lambda>h. \<lparr>source_filename = dict_get h ''filename'' ''Unknown'',
                     source_content = take 200 (dict_get h ''content'' '''') @ ''...''\<rparr>) hits,
                 resp_session_id = session_id request\<rparr>) \<and>
    store (query (Some search) (Some complete) request convs) =
       (case complete msgs of
          Inl e \<Rightarrow> convs(session_id request \<mapsto> dict_get convs (session_id request) [])
        | Inr answer \<Rightarrow>
            convs(session_id request \<mapsto> dict_get convs (session_id request) [] @
               [\<lparr>role = ''user'', content = query_text request\<rparr>,
                \<lparr>role = ''assistant'', content = answer\<rparr>]))"
  using query_after_search[of search request hits complete convs, OF assms]
  by (simp add: Let_def split: sum.splits)

lemma response_after_search:
  assumes "search (query_text request) (max_results request) = Inr hits"
      and "sent (query (Some search) (Some complete) request convs) = Some msgs"
  shows "response (query (Some search) (Some complete) request convs) =
     (case complete msgs of
        Inl e \<Rightarrow> Inl (HTTPException 500 (''Error processing query: '' @ e))
      | Inr answer \<Rightarrow>
          Inr \<lparr>resp_answer = answer,
               resp_sources = map (\<lambda>h. \<lparr>source_filename = dict_get h ''filename'' ''Unknown'',
                     source_content = take 200 (dict_get h ''content'' []) @ ''...''\<rparr>) hits,
               resp_session_id = session_id request\<rparr>)"
  using query_parts[of search request hits complete convs, OF assms(1)] assms(2)
  by (elim exE conjE) simp

lemma store_after_search:
  assumes "search (query_text request) (max_results request) = Inr hits"
      and "sent (query (Some search) (Some complete) request convs) = Some msgs"
  shows "store (query (Some search) (Some complete) request convs) =
     (case complete msgs of
        Inl e \<Rightarrow> convs(session_id request \<mapsto> dict_get convs (session_id request) [])
      | Inr answer \<Rightarrow>
          convs(session_id request \<mapsto> dict_get convs (session_id request) [] @
             [\<lparr>role = ''user'', content = query_text request\<rparr>,
              \<lparr>role = ''assistant'', content = answer\<rparr>]))"
  using query_parts[of search request hits complete convs, OF assms(1)] assms(2)
  by (elim exE conjE) simp

lemma query_search_failed:
  assumes "search (query_text request) (max_results request) = Inl e"
  shows "query (Some search) (Some complete) request convs =
     \<lparr>response = Inl (HTTPException 500 (''Error processing query: '' @ e)),
      store = convs, sent = None\<rparr>"
  using assms by (simp add: query_def)

lemma response_ok_configured:
  assumes "response (query search_client openai_client request convs) = Inr resp"
  obtains search complete hits where
    "search_client = Some search" "openai_client = Some complete"
    "search (query_text request) (max_results request) = Inr hits"
proof -
  from assms obtain search complete where
    sc: "search_client = Some search" "openai_client = Some complete"
    by (auto simp: query_def split: option.splits)
  from assms sc obtain hits where "search (query_text request) (max_results request) = Inr hits"
    by (cases "search (query_text request) (max_results request)") (auto simp: query_def)
  with sc show thesis using that by blast
qed

lemma response_ok_parts:
  assumes "search (query_text request) (max_results request) = Inr hits"
      and "response (query (Some search) (Some complete) request convs) = Inr resp"
  shows "\<exists>msgs.
    sent (query (Some search) (Some complete) request convs) = Some msgs \<and>
    complete msgs = Inr (resp_answer resp) \<and>
    resp_sources resp =
      map (\<lambda>h. \<lparr>source_filename = dict_get h ''filename'' ''Unknown'',
                 source_content = take 200 (dict_get h ''content'' '''') @ ''...''\<rparr>) hits \<and>
    resp_session_id resp = session_id request \<and>
    store (query (Some search) (Some complete) request convs) =
      convs(session_id request \<mapsto> dict_get convs (session_id request) [] @
         [\<lparr>role = ''user'', content = query_text request\<rparr>,
          \<lparr>role = ''assistant'', content = resp_answer resp\<rparr>])"
proof -
  from query_parts[of search request hits complete convs, OF assms(1)]
  obtain msgs where m: "sent (query (Some search) (Some complete) request convs) = Some msgs"
    by blast
  show ?thesis
  proof (cases "complete msgs")
    case (Inl e)
    with response_after_search[OF assms(1) m] assms(2) show ?thesis by simp
  next
    case (Inr a)
    with response_after_search[OF assms(1) m] assms(2)
    have r: "resp = \<lparr>resp_answer = a,
               resp_sources = map (\<lambda>h. \<lparr>source_filename = dict_get h ''filename'' ''Unknown'',
                     source_content = take 200 (dict_get h ''content'' []) @ ''...''\<rparr>) hits,
               resp_session_id = session_id request\<rparr>"
      by simp
    from Inr store_after_search[OF assms(1) m]
    have "store (query (Some search) (Some complete) request convs) =
      convs(session_id request \<mapsto> dict_get convs (session_id request) [] @
         [\<lparr>role = ''user'', content = query_text request\<rparr>,
          \<lparr>role = ''assistant'', content = a\<rparr>])"
      by simp
    with m Inr r show ?thesis by simp
  qed
qed

lemma join_concat: "join sep (x # xs) = x @ concat (map (\<lambda>y. sep @ y) xs)"
  by (induction xs arbitrary: x) simp_all

lemma example_query_response:
  "response (query (Some example_search) (Some example_complete) example_request convs)
     = Inr example_response"
  by (simp add: query_def example_search_def example_complete_def example_request_def
        example_response_def example_hit_def bare_hit_def dict_get_def Let_def)

section \<open>The ingestion loop and file names\<close>

lemma rfind_absent: "c \<notin> set xs \<Longrightarrow> rfind c xs = None"
  by (induction xs) auto

lemma rfind_last_occurrence:
  "c \<notin> set ys \<Longrightarrow> rfind c (xs @ c # ys) = Some (length xs)"
  by (induction xs) (simp_all add: rfind_absent)

lemma stem_txt:
  assumes "base \<noteq> []"
  shows "stem (base @ ''.txt'') = base"
proof -
  have "rfind (CHR ''.'') (base @ CHR ''.'' # ''txt'') = Some (length base)"
    by (rule rfind_last_occurrence) simp
  with assms show ?thesis by (simp add: stem_def)
qed

lemma matches_txt_iff: "matches_txt name \<longleftrightarrow> (\<exists>base. name = base @ ''.txt'')"
proof
  assume "matches_txt name"
  then have "name = take (length name - 4) name @ ''.txt''"
    by (metis append_take_drop_id matches_txt_def)
  then show "\<exists>base. name = base @ ''.txt''" ..
next
  assume "\<exists>base. name = base @ ''.txt''"
  then show "matches_txt name" by (auto simp: matches_txt_def)
qed

lemma read_files_readable:
  "read_files (map (\<lambda>(name, text). (name, Inr text)) files) documents =
     Inr (documents @
          map (\<lambda>(name, text). \<lparr>doc_id = stem name, doc_filename = name, doc_content = text\<rparr>)
            files)"
  by (induction files arbitrary: documents) (simp_all add: case_prod_beta)

lemma read_files_ok_readable:
  "read_files entries documents = Inr out \<Longrightarrow>
   \<exists>files. entries = map (\<lambda>(name, text). (name, Inr text)) files"
proof (induction entries arbitrary: documents)
  case Nil
  then show ?case by simp
next
  case (Cons entry entries)
  obtain name opened where e: "entry = (name, opened)" by (cases entry)
  with Cons.prems obtain contents where t: "opened = Inr contents"
    by (cases opened) simp_all
  with e Cons.prems Cons.IH obtain files where
    "entries = map (\<lambda>(name, text). (name, Inr text)) files"
    by auto
  with e t have "entry # entries = map (\<lambda>(name, text). (name, Inr text)) ((name, contents) # files)"
    by simp
  then show ?case ..
qed

section \<open>The prompt sent to the completion client\<close>

text \<open>
  Claim C1. When both clients are configured and the search returns its hits, the handler
  calls the completion client with this message sequence: first one system message with the
  fixed instruction text; then one message for each turn of the window of the stored history
  (the slice of the handler, oldest turn first), a user message with the turn's content for
  a turn of role \<open>user\<close>, otherwise (so for role \<open>assistant\<close>) a system message with
  \<open>Assistant: \<close> in front of the content; and last one user message with the content
  \<open>Context:\n\<close>, the context string, \<open>\n\nQuestion: \<close> and the query text.
\<close>

theorem prompt_message_sequence:
  assumes "search (query_text request) (max_results request) = Inr hits"
  shows "sent (query (Some search) (Some complete) request convs) =
       Some ([SystemMessage system_prompt] @
             map (\<lambda>t. if role t = ''user'' then UserMessage (content t)
                       else SystemMessage (''Assistant: '' @ content t))
                 (slice_last 5 (view_messages (get_conversation (session_id request) convs))) @
             [UserMessage (''Context:\<newline>'' @
                (if hits = [] then ''No relevant documents found.''
                 else join ''\<newline>\<newline>'' (map (\<lambda>h. dict_get h ''content'' '''') hits)) @
                ''\<newline>\<newline>Question: '' @ query_text request)])"
  using query_after_search[of search request hits complete convs, OF assms]
  by (simp add: Let_def get_conversation_def split: sum.splits)

theorem prompt_message_sequence_witness:
  "example_search (query_text example_request) (max_results example_request)
     = Inr [example_hit, bare_hit] \<and>
   sent (query (Some example_search) (Some example_complete) example_request example_store) =
     Some [SystemMessage system_prompt,
           SystemMessage ''Assistant: a3'',
           UserMessage ''q4'', SystemMessage ''Assistant: a4'',
           UserMessage ''q5'', SystemMessage ''Assistant: a5'',
           UserMessage (''Context:\<newline>Azure AI Search is a managed cloud search service.'' @
                        ''\<newline>\<newline>'' @
                        ''\<newline>\<newline>Question: What is Azure AI Search?'')]"
  using prompt_message_sequence[of example_search example_request "[example_hit, bare_hit]"
          example_complete example_store]
  by (simp add: example_search_def example_request_def example_store_def five_exchanges_def
        example_hit_def bare_hit_def get_conversation_def dict_get_def slice_last_def)

section \<open>Sources of the response\<close>

text \<open>
  Claim C3. In the response of a successful query there is one source for each hit, and the
  content of the source of a hit is the first 200 characters of the hit's content with the
  three characters \<open>...\<close> after them; the marker is added also when the content is
  shorter than 200 characters, so a content of length 50 gives a source content of length 53
  that ends in \<open>...\<close>.
\<close>

theorem source_content_truncated:
  assumes "search (query_text request) (max_results request) = Inr hits"
      and "response (query (Some search) (Some complete) request convs) = Inr resp"
      and "i < length hits"
      and "(hits ! i) ''content'' = Some c"
  shows "length (resp_sources resp) = length hits \<and>
         source_content (resp_sources resp ! i) = take 200 c @ ''...'' \<and>
         (length c < 200 \<longrightarrow> source_content (resp_sources resp ! i) = c @ ''...'') \<and>
         (length c = 50 \<longrightarrow>
            length (source_content (resp_sources resp ! i)) = 53 \<and>
            drop 50 (source_content (resp_sources resp ! i)) = ''...'')"
proof -
  from response_ok_parts[OF assms(1,2)]
  have s: "resp_sources resp =
      map (\<lambda>h. \<lparr>source_filename = dict_get h ''filename'' ''Unknown'',
                 source_content = take 200 (dict_get h ''content'' '''') @ ''...''\<rparr>) hits"
    by blast
  from s have len: "length (resp_sources resp) = length hits" by simp
  from s assms(3,4) have c: "source_content (resp_sources resp ! i) = take 200 c @ ''...''"
    by (simp add: dict_get_def)
  from len c show ?thesis by simp
qed

theorem source_content_truncated_witness:
  "example_search (query_text example_request) (max_results example_request)
     = Inr [example_hit, bare_hit] \<and>
   response (query (Some example_search) (Some example_complete) example_request example_store)
     = Inr example_response \<and>
   (0::nat) < length [example_hit, bare_hit] \<and>
   ([example_hit, bare_hit] ! 0) ''content''
     = Some ''Azure AI Search is a managed cloud search service.'' \<and>
   length ''Azure AI Search is a managed cloud search service.'' = 50 \<and>
   length (resp_sources example_response) = 2 \<and>
   source_content (resp_sources example_response ! 0)
     = ''Azure AI Search is a managed cloud search service....'' \<and>
   length (source_content (resp_sources example_response ! 0)) = 53 \<and>
   drop 50 (source_content (resp_sources example_response ! 0)) = ''...''"
proof -
  have h1: "example_search (query_text example_request) (max_results example_request)
     = Inr [example_hit, bare_hit]"
    by (simp add: example_search_def)
  have h2: "response (query (Some example_search) (Some example_complete) example_request
     example_store) = Inr example_response"
    by (rule example_query_response)
  have h3: "(0::nat) < length [example_hit, bare_hit]" by simp
  have h4: "([example_hit, bare_hit] ! 0) ''content''
     = Some ''Azure AI Search is a managed cloud search service.''"
    by (simp add: example_hit_def)
  have h5: "length ''Azure AI Search is a managed cloud search service.'' = 50" by simp
  from source_content_truncated[OF h1 h2 h3 h4] h1 h2 h3 h4 h5 show ?thesis by simp
qed

section \<open>The context string\<close>

text \<open>
  Claim C5. The last message sent to the completion client carries the context string
  between \<open>Context:\n\<close> and \<open>\n\nQuestion: \<close>. With no hit the context string is
  \<open>No relevant documents found.\<close>; with at least one hit it is the contents of the hits
  in order, with the two characters \<open>\n\n\<close> between consecutive contents, which is
  \<open>"\n\n".join\<close> of the contents.
\<close>

theorem context_string_in_prompt:
  assumes "search (query_text request) (max_results request) = Inr hits"
  shows "\<exists>msgs context_str.
     sent (query (Some search) (Some complete) request convs) = Some msgs \<and>
     msgs \<noteq> [] \<and>
     last msgs = UserMessage (''Context:\<newline>'' @ context_str @
                              ''\<newline>\<newline>Question: '' @ query_text request) \<and>
     context_str =
       (case hits of
          [] \<Rightarrow> ''No relevant documents found.''
        | h # rest \<Rightarrow>
            dict_get h ''content'' '''' @
            concat (map (\<lambda>h'. ''\<newline>\<newline>'' @ dict_get h' ''content'' '''') rest)) \<and>
     (hits \<noteq> [] \<longrightarrow>
        context_str = join ''\<newline>\<newline>'' (map (\<lambda>h. dict_get h ''content'' '''') hits))"
  using query_after_search[of search request hits complete convs, OF assms]
  by (cases hits) (simp_all add: Let_def join_concat comp_def split: sum.splits)

theorem context_string_in_prompt_witness:
  "example_search (query_text example_request) (max_results example_request)
     = Inr [example_hit, bare_hit] \<and>
   empty_search (query_text example_request) (max_results example_request) = Inr [] \<and>
   (\<exists>msgs. sent (query (Some example_search) (Some example_complete) example_request
               Map.empty) = Some msgs \<and>
      last msgs = UserMessage
        (''Context:\<newline>Azure AI Search is a managed cloud search service.'' @
         ''\<newline>\<newline>'' @ ''\<newline>\<newline>Question: What is Azure AI Search?'')) \<and>
   (\<exists>msgs. sent (query (Some empty_search) (Some example_complete) example_request
               Map.empty) = Some msgs \<and>
      last msgs = UserMessage
        (''Context:\<newline>No relevant documents found.'' @
         ''\<newline>\<newline>Question: What is Azure AI Search?''))"
proof -
  have h1: "example_search (query_text example_request) (max_results example_request)
     = Inr [example_hit, bare_hit]"
    by (simp add: example_search_def)
  have h2: "empty_search (query_text example_request) (max_results example_request) = Inr []"
    by (simp add: empty_search_def)
  from h1 context_string_in_prompt[of example_search example_request "[example_hit, bare_hit]"
      example_complete Map.empty]
  have a: "\<exists>msgs. sent (query (Some example_search) (Some example_complete) example_request
               Map.empty) = Some msgs \<and>
      last msgs = UserMessage
        (''Context:\<newline>Azure AI Search is a managed cloud search service.'' @
         ''\<newline>\<newline>'' @ ''\<newline>\<newline>Question: What is Azure AI Search?'')"
    by (auto simp: example_hit_def bare_hit_def dict_get_def example_request_def)
  from h2 context_string_in_prompt[of empty_search example_request "[]"
      example_complete Map.empty]
  have b: "\<exists>msgs. sent (query (Some empty_search) (Some example_complete) example_request
               Map.empty) = Some msgs \<and>
      last msgs = UserMessage
        (''Context:\<newline>No relevant documents found.'' @
         ''\<newline>\<newline>Question: What is Azure AI Search?'')"
    by (auto simp: example_request_def)
  from h1 h2 a b show ?thesis by blast
qed

section \<open>Hits without a filename or a content\<close>

text \<open>
  Claim C9. For a hit without a \<open>filename\<close> field the source in the response has the
  filename \<open>Unknown\<close>. For a hit without a \<open>content\<close> field the empty string stands in:
  the source content is exactly \<open>...\<close>, and the segment that the hit contributes to the
  joined context string is empty.
\<close>

theorem missing_fields_defaults:
  assumes "search (query_text request) (max_results request) = Inr hits"
      and "response (query (Some search) (Some complete) request convs) = Inr resp"
      and "i < length hits"
  shows "length (resp_sources resp) = length hits \<and>
     ((hits ! i) ''filename'' = None \<longrightarrow>
        source_filename (resp_sources resp ! i) = ''Unknown'') \<and>
     ((hits ! i) ''content'' = None \<longrightarrow>
        source_content (resp_sources resp ! i) = ''...'') \<and>
     (\<exists>msgs segments.
        sent (query (Some search) (Some complete) request convs) = Some msgs \<and>
        last msgs = UserMessage (''Context:\<newline>'' @ join ''\<newline>\<newline>'' segments @
                                 ''\<newline>\<newline>Question: '' @ query_text request) \<and>
        length segments = length hits \<and>
        ((hits ! i) ''content'' = None \<longrightarrow> segments ! i = '''') \<and>
        (\<forall>c. (hits ! i) ''content'' = Some c \<longrightarrow> segments ! i = c))"
proof -
  from response_ok_parts[OF assms(1,2)]
  have s: "resp_sources resp =
      map (\<lambda>h. \<lparr>source_filename = dict_get h ''filename'' ''Unknown'',
                 source_content = take 200 (dict_get h ''content'' '''') @ ''...''\<rparr>) hits"
    by blast
  from assms(3) have ne: "hits \<noteq> []" by auto
  let ?segs = "map (\<lambda>h. dict_get h ''content'' []) hits"
  let ?final = "UserMessage (''Context:\<newline>'' @ join ''\<newline>\<newline>'' ?segs @
                  ''\<newline>\<newline>Question: '' @ query_text request)"
  let ?msgs = "SystemMessage system_prompt #
            map (\<lambda>t. if role t = ''user'' then UserMessage (content t)
                     else SystemMessage (''Assistant: '' @ content t))
               (slice_last 5 (dict_get convs (session_id request) [])) @ [?final]"
  have snt: "sent (query (Some search) (Some complete) request convs) = Some ?msgs"
    using query_after_search[of search request hits complete convs, OF assms(1)] ne
    by (simp add: Let_def split: sum.splits)
  have l: "last ?msgs = ?final" by simp
  have s1: "length ?segs = length hits" by simp
  have s2: "(hits ! i) ''content'' = None \<longrightarrow> ?segs ! i = []"
    using assms(3) by (simp add: dict_get_def)
  have s3: "\<forall>c. (hits ! i) ''content'' = Some c \<longrightarrow> ?segs ! i = c"
    using assms(3) by (simp add: dict_get_def)
  have ctx: "\<exists>msgs segments.
        sent (query (Some search) (Some complete) request convs) = Some msgs \<and>
        last msgs = UserMessage (''Context:\<newline>'' @ join ''\<newline>\<newline>'' segments @
                                 ''\<newline>\<newline>Question: '' @ query_text request) \<and>
        length segments = length hits \<and>
        ((hits ! i) ''content'' = None \<longrightarrow> segments ! i = []) \<and>
        (\<forall>c. (hits ! i) ''content'' = Some c \<longrightarrow> segments ! i = c)"
  proof (intro exI conjI)
    show "sent (query (Some search) (Some complete) request convs) = Some ?msgs"
      by (rule snt)
    show "last ?msgs = ?final" by (rule l)
    show "length ?segs = length hits" by (rule s1)
    show "(hits ! i) ''content'' = None \<longrightarrow> ?segs ! i = []" by (rule s2)
    show "\<forall>c. (hits ! i) ''content'' = Some c \<longrightarrow> ?segs ! i = c" by (rule s3)
  qed
  from s assms(3) have "length (resp_sources resp) = length hits"
    and "(hits ! i) ''filename'' = None \<longrightarrow>
        source_filename (resp_sources resp ! i) = ''Unknown''"
    and "(hits ! i) ''content'' = None \<longrightarrow>
        source_content (resp_sources resp ! i) = ''...''"
    by (simp_all add: dict_get_def)
  with ctx show ?thesis by blast
qed

theorem missing_fields_defaults_witness:
  "example_search (query_text example_request) (max_results example_request)
     = Inr [example_hit, bare_hit] \<and>
   response (query (Some example_search) (Some example_complete) example_request Map.empty)
     = Inr example_response \<and>
   (1::nat) < length [example_hit, bare_hit] \<and>
   ([example_hit, bare_hit] ! 1) ''filename'' = None \<and>
   ([example_hit, bare_hit] ! 1) ''content'' = None \<and>
   source_filename (resp_sources example_response ! 1) = ''Unknown'' \<and>
   source_content (resp_sources example_response ! 1) = ''...'' \<and>
   (\<exists>msgs segments.
      sent (query (Some example_search) (Some example_complete) example_request Map.empty)
        = Some msgs \<and>
      last msgs = UserMessage (''Context:\<newline>'' @ join ''\<newline>\<newline>'' segments @
                               ''\<newline>\<newline>Question: '' @ query_text example_request) \<and>
      length segments = 2 \<and> segments ! 1 = '''')"
proof -
  have h1: "example_search (query_text example_request) (max_results example_request)
     = Inr [example_hit, bare_hit]"
    by (simp add: example_search_def)
  have h2: "response (query (Some example_search) (Some example_complete) example_request
     Map.empty) = Inr example_response"
    by (rule example_query_response)
  have h3: "(1::nat) < length [example_hit, bare_hit]" by simp
  have h4: "([example_hit, bare_hit] ! 1) ''filename'' = None"
    and h5: "([example_hit, bare_hit] ! 1) ''content'' = None"
    by (simp_all add: bare_hit_def)
  from h1 h2 h3 missing_fields_defaults[of example_search example_request
      "[example_hit, bare_hit]" example_complete Map.empty example_response 1] h4 h5
  show ?thesis by (auto simp: numeral_2_eq_2)
qed

section \<open>A failed generation for a new session\<close>

text \<open>
  Claim C10. When the session has no conversation yet, the search succeeds and the
  completion call raises, the request fails with status 500 and leaves an entry with an empty
  list for the session: clearing the session afterwards answers with the \<open>cleared\<close> message
  (clearing it before the request answers \<open>No conversation found\<close>), while reading the
  session gives no messages.
\<close>

theorem failed_generation_leaves_empty_entry:
  assumes "convs (session_id request) = None"
      and "search (query_text request) (max_results request) = Inr hits"
      and "sent (query (Some search) (Some complete) request convs) = Some msgs"
      and "complete msgs = Inl e"
  shows "http_status (response (query (Some search) (Some complete) request convs)) = 500 \<and>
     store (query (Some search) (Some complete) request convs) (session_id request) = Some [] \<and>
     fst (clear_conversation (session_id request)
            (store (query (Some search) (Some complete) request convs))) =
       Inr [(''message'',
             JStr (''Conversation history cleared for session '' @ session_id request))] \<and>
     view_messages (get_conversation (session_id request)
            (store (query (Some search) (Some complete) request convs))) = [] \<and>
     fst (clear_conversation (session_id request) convs) =
       Inr [(''message'', JStr (''No conversation found for session '' @ session_id request))]"
proof -
  from response_after_search[OF assms(2,3)] assms(4)
  have r: "http_status (response (query (Some search) (Some complete) request convs)) = 500"
    by (simp add: http_status_def)
  from store_after_search[OF assms(2,3)] assms(4) assms(1)
  have s: "store (query (Some search) (Some complete) request convs) =
      convs(session_id request \<mapsto> [])"
    by (simp add: dict_get_def)
  from r s assms(1) show ?thesis
    by (simp add: clear_conversation_def get_conversation_def dict_get_def)
qed

theorem failed_generation_leaves_empty_entry_witness:
  "(Map.empty :: conversations) (session_id example_request) = None \<and>
   example_search (query_text example_request) (max_results example_request)
     = Inr [example_hit, bare_hit] \<and>
   (\<exists>msgs. sent (query (Some example_search) (Some failing_complete) example_request
               Map.empty) = Some msgs \<and>
           failing_complete msgs = Inl ''timed out'') \<and>
   http_status (response (query (Some example_search) (Some failing_complete) example_request
      Map.empty)) = 500 \<and>
   fst (clear_conversation ''s1''
          (store (query (Some example_search) (Some failing_complete) example_request
             Map.empty))) =
     Inr [(''message'', JStr ''Conversation history cleared for session s1'')] \<and>
   view_messages (get_conversation ''s1''
          (store (query (Some example_search) (Some failing_complete) example_request
             Map.empty))) = [] \<and>
   fst (clear_conversation ''s1'' Map.empty) =
     Inr [(''message'', JStr ''No conversation found for session s1'')]"
proof -
  have h1: "(Map.empty :: conversations) (session_id example_request) = None" by simp
  have h2: "example_search (query_text example_request) (max_results example_request)
     = Inr [example_hit, bare_hit]"
    by (simp add: example_search_def)
  from query_parts[of example_search example_request "[example_hit, bare_hit]"
      failing_complete Map.empty, OF h2]
  obtain msgs where h3: "sent (query (Some example_search) (Some failing_complete)
      example_request Map.empty) = Some msgs"
    by blast
  have h4: "failing_complete msgs = Inl ''timed out''" by (simp add: failing_complete_def)
  have sid: "session_id example_request = ''s1''" by (simp add: example_request_def)
  from failed_generation_leaves_empty_entry[OF h1 h2 h3 h4] h1 h2 h3 h4 sid
  show ?thesis by simp
qed

section \<open>The window of the history\<close>

text \<open>
  Claim C2. The claim asks for the ten most recent stored turns, the last five exchanges, in
  the prompt; the comment at the slice says \<open>Keep last 5 exchanges\<close> too. The slice
  \<open>conversation_history[-5:]\<close> keeps five turns. Evaluated on a session that holds five
  exchanges (ten turns): the prompt carries the five turns from \<open>a3\<close> to \<open>a5\<close> only,
  between the instruction and the question, and the turns \<open>q1\<close> to \<open>q3\<close> are left out.
\<close>

theorem history_window_is_five_turns:
  "view_messages (get_conversation (session_id example_request) example_store) = five_exchanges \<and>
   length five_exchanges = 10 \<and>
   slice_last 5 five_exchanges =
     [\<lparr>role = ''assistant'', content = ''a3''\<rparr>,
      \<lparr>role = ''user'', content = ''q4''\<rparr>, \<lparr>role = ''assistant'', content = ''a4''\<rparr>,
      \<lparr>role = ''user'', content = ''q5''\<rparr>, \<lparr>role = ''assistant'', content = ''a5''\<rparr>] \<and>
   sent (query (Some example_search) (Some example_complete) example_request example_store) =
     Some [SystemMessage system_prompt,
           SystemMessage ''Assistant: a3'',
           UserMessage ''q4'', SystemMessage ''Assistant: a4'',
           UserMessage ''q5'', SystemMessage ''Assistant: a5'',
           UserMessage (''Context:\<newline>Azure AI Search is a managed cloud search service.'' @
                        ''\<newline>\<newline>'' @
                        ''\<newline>\<newline>Question: What is Azure AI Search?'')]"
proof -
  have h: "example_search (query_text example_request) (max_results example_request)
     = Inr [example_hit, bare_hit]"
    by (simp add: example_search_def)
  from query_after_search[of example_search example_request "[example_hit, bare_hit]"
      example_complete example_store, OF h]
  show ?thesis
    by (simp add: Let_def example_complete_def example_request_def example_store_def
          five_exchanges_def example_hit_def bare_hit_def get_conversation_def dict_get_def
          slice_last_def)
qed

section \<open>What a query stores\<close>

text \<open>
  Claim C4. A query that returns a response (status 200) leaves the session's conversation
  as it was read before, followed by exactly two turns: the user turn with the query text
  and then the assistant turn with the answer of the response. When both clients are
  configured and the search raises, or the completion call that was made raises, the request
  fails with status 500 and every session reads back the same turns as before.
\<close>

theorem query_persists_after_success_only:
  "(response (query search_client openai_client request convs) = Inr resp \<longrightarrow>
      http_status (response (query search_client openai_client request convs)) = 200 \<and>
      view_messages (get_conversation (session_id request)
          (store (query search_client openai_client request convs))) =
        view_messages (get_conversation (session_id request) convs) @
          [\<lparr>role = ''user'', content = query_text request\<rparr>,
           \<lparr>role = ''assistant'', content = resp_answer resp\<rparr>]) \<and>
   (search_client = Some search \<and> openai_client = Some complete \<and>
      (search (query_text request) (max_results request) = Inl e \<or>
       sent (query search_client openai_client request convs) = Some msgs \<and>
       complete msgs = Inl e) \<longrightarrow>
      http_status (response (query search_client openai_client request convs)) = 500 \<and>
      (\<forall>sid. view_messages (get_conversation sid
                  (store (query search_client openai_client request convs))) =
             view_messages (get_conversation sid convs)))"
proof (intro conjI impI)
  assume ok: "response (query search_client openai_client request convs) = Inr resp"
  then show "http_status (response (query search_client openai_client request convs)) = 200"
    by (simp add: http_status_def)
  from ok obtain search' complete' hits where
    c: "search_client = Some search'" "openai_client = Some complete'"
    and h: "search' (query_text request) (max_results request) = Inr hits"
    by (rule response_ok_configured)
  from response_ok_parts[of search' request hits complete' convs resp] h ok c
  have "store (query search_client openai_client request convs) =
      convs(session_id request \<mapsto> dict_get convs (session_id request) [] @
         [\<lparr>role = ''user'', content = query_text request\<rparr>,
          \<lparr>role = ''assistant'', content = resp_answer resp\<rparr>])"
    by blast
  then show "view_messages (get_conversation (session_id request)
          (store (query search_client openai_client request convs))) =
        view_messages (get_conversation (session_id request) convs) @
          [\<lparr>role = ''user'', content = query_text request\<rparr>,
           \<lparr>role = ''assistant'', content = resp_answer resp\<rparr>]"
    by (simp add: get_conversation_def dict_get_def)
next
  assume a: "search_client = Some search \<and> openai_client = Some complete \<and>
      (search (query_text request) (max_results request) = Inl e \<or>
       sent (query search_client openai_client request convs) = Some msgs \<and>
       complete msgs = Inl e)"
  then have c: "search_client = Some search" "openai_client = Some complete" by simp_all
  have "http_status (response (query (Some search) (Some complete) request convs)) = 500 \<and>
      (\<forall>sid. view_messages (get_conversation sid
                  (store (query (Some search) (Some complete) request convs))) =
             view_messages (get_conversation sid convs))"
  proof (cases "search (query_text request) (max_results request)")
    case (Inl e')
    from query_search_failed[of search request e' complete convs, OF Inl] show ?thesis
      by (simp add: http_status_def)
  next
    case (Inr hits)
    with a c have m: "sent (query (Some search) (Some complete) request convs) = Some msgs"
      and f: "complete msgs = Inl e"
      by simp_all
    from response_after_search[of search request hits complete convs msgs, OF Inr m] f
    have r: "http_status (response (query (Some search) (Some complete) request convs)) = 500"
      by (simp add: http_status_def)
    from store_after_search[of search request hits complete convs msgs, OF Inr m] f
    have "store (query (Some search) (Some complete) request convs) =
        convs(session_id request \<mapsto> dict_get convs (session_id request) [])"
      by simp
    then have "\<forall>sid. view_messages (get_conversation sid
                  (store (query (Some search) (Some complete) request convs))) =
             view_messages (get_conversation sid convs)"
      by (simp add: get_conversation_def dict_get_def)
    with r show ?thesis by simp
  qed
  with c show "http_status (response (query search_client openai_client request convs)) = 500"
    and "\<forall>sid. view_messages (get_conversation sid
                  (store (query search_client openai_client request convs))) =
             view_messages (get_conversation sid convs)"
    by simp_all
qed

theorem query_persists_after_success_only_witness:
  "response (query (Some example_search) (Some example_complete) example_request
      one_exchange_store) = Inr example_response \<and>
   view_messages (get_conversation ''s1''
      (store (query (Some example_search) (Some example_complete) example_request
         one_exchange_store))) =
     [\<lparr>role = ''user'', content = ''q1''\<rparr>, \<lparr>role = ''assistant'', content = ''a1''\<rparr>,
      \<lparr>role = ''user'', content = ''What is Azure AI Search?''\<rparr>,
      \<lparr>role = ''assistant'', content = ''A cloud search service.''\<rparr>] \<and>
   failing_search (query_text example_request) (max_results example_request)
     = Inl ''connection refused'' \<and>
   http_status (response (query (Some failing_search) (Some example_complete) example_request
      one_exchange_store)) = 500 \<and>
   view_messages (get_conversation ''s1''
      (store (query (Some failing_search) (Some example_complete) example_request
         one_exchange_store))) =
     [\<lparr>role = ''user'', content = ''q1''\<rparr>, \<lparr>role = ''assistant'', content = ''a1''\<rparr>] \<and>
   (\<exists>msgs. sent (query (Some example_search) (Some failing_complete) example_request
               one_exchange_store) = Some msgs \<and>
           failing_complete msgs = Inl ''timed out'') \<and>
   http_status (response (query (Some example_search) (Some failing_complete) example_request
      one_exchange_store)) = 500 \<and>
   view_messages (get_conversation ''s1''
      (store (query (Some example_search) (Some failing_complete) example_request
         one_exchange_store))) =
     [\<lparr>role = ''user'', content = ''q1''\<rparr>, \<lparr>role = ''assistant'', content = ''a1''\<rparr>]"
proof -
  have old: "view_messages (get_conversation ''s1'' one_exchange_store) =
     [\<lparr>role = ''user'', content = ''q1''\<rparr>, \<lparr>role = ''assistant'', content = ''a1''\<rparr>]"
    by (simp add: get_conversation_def dict_get_def one_exchange_store_def)
  have sid: "session_id example_request = ''s1''"
    and q: "query_text example_request = ''What is Azure AI Search?''"
    by (simp_all add: example_request_def)
  have ans: "resp_answer example_response = ''A cloud search service.''"
    by (simp add: example_response_def)
  have ok: "response (query (Some example_search) (Some example_complete) example_request
      one_exchange_store) = Inr example_response"
    by (rule example_query_response)
  from ok query_persists_after_success_only[of "Some example_search" "Some example_complete"
      example_request one_exchange_store example_response]
  have a: "view_messages (get_conversation ''s1''
      (store (query (Some example_search) (Some example_complete) example_request
         one_exchange_store))) =
     [\<lparr>role = ''user'', content = ''q1''\<rparr>, \<lparr>role = ''assistant'', content = ''a1''\<rparr>,
      \<lparr>role = ''user'', content = ''What is Azure AI Search?''\<rparr>,
      \<lparr>role = ''assistant'', content = ''A cloud search service.''\<rparr>]"
    by (simp add: old sid q ans)
  have fs: "failing_search (query_text example_request) (max_results example_request)
     = Inl ''connection refused''"
    by (simp add: failing_search_def)
  from fs query_persists_after_success_only[of "Some failing_search" "Some example_complete"
      example_request one_exchange_store _ failing_search example_complete
      "''connection refused''"]
  have b: "http_status (response (query (Some failing_search) (Some example_complete)
      example_request one_exchange_store)) = 500 \<and>
    view_messages (get_conversation ''s1''
      (store (query (Some failing_search) (Some example_complete) example_request
         one_exchange_store))) =
     [\<lparr>role = ''user'', content = ''q1''\<rparr>, \<lparr>role = ''assistant'', content = ''a1''\<rparr>]"
    by (simp add: old)
  have h: "example_search (query_text example_request) (max_results example_request)
     = Inr [example_hit, bare_hit]"
    by (simp add: example_search_def)
  from query_parts[of example_search example_request "[example_hit, bare_hit]"
      failing_complete one_exchange_store, OF h]
  obtain msgs where m: "sent (query (Some example_search) (Some failing_complete)
      example_request one_exchange_store) = Some msgs"
    by blast
  have fc: "failing_complete msgs = Inl ''timed out''" by (simp add: failing_complete_def)
  from m fc query_persists_after_success_only[of "Some example_search" "Some failing_complete"
      example_request one_exchange_store _ example_search failing_complete
      "''timed out''" msgs]
  have c: "http_status (response (query (Some example_search) (Some failing_complete)
      example_request one_exchange_store)) = 500 \<and>
    view_messages (get_conversation ''s1''
      (store (query (Some example_search) (Some failing_complete) example_request
         one_exchange_store))) =
     [\<lparr>role = ''user'', content = ''q1''\<rparr>, \<lparr>role = ''assistant'', content = ''a1''\<rparr>]"
    by (simp add: old)
  from ok a fs b m fc c show ?thesis by blast
qed

section \<open>Clearing a conversation\<close>

text \<open>
  Claim C6. Clearing a session removes its entry, answers with status 200 and a message
  (\<open>cleared\<close> when there was an entry, \<open>No conversation found\<close> when there was none),
  changes nothing when there was no entry, leaves the other sessions alone, and clearing a
  second time changes nothing more; reading the session after a clear gives no messages.
\<close>

theorem clear_conversation_idempotent:
  "snd (clear_conversation sid convs) sid = None \<and>
   http_status (fst (clear_conversation sid convs)) = 200 \<and>
   (convs sid \<noteq> None \<longrightarrow>
      fst (clear_conversation sid convs) =
        Inr [(''message'', JStr (''Conversation history cleared for session '' @ sid))]) \<and>
   (convs sid = None \<longrightarrow>
      clear_conversation sid convs =
        (Inr [(''message'', JStr (''No conversation found for session '' @ sid))], convs)) \<and>
   clear_conversation sid (snd (clear_conversation sid convs)) =
     (Inr [(''message'', JStr (''No conversation found for session '' @ sid))],
      snd (clear_conversation sid convs)) \<and>
   view_messages (get_conversation sid (snd (clear_conversation sid convs))) = [] \<and>
   (\<forall>other. other \<noteq> sid \<longrightarrow> snd (clear_conversation sid convs) other = convs other)"
  by (simp add: clear_conversation_def get_conversation_def dict_get_def http_status_def)

theorem clear_conversation_idempotent_witness:
  "example_store ''s1'' \<noteq> None \<and>
   fst (clear_conversation ''s1'' example_store) =
     Inr [(''message'', JStr ''Conversation history cleared for session s1'')] \<and>
   snd (clear_conversation ''s1'' example_store) ''s1'' = None \<and>
   view_messages (get_conversation ''s1'' (snd (clear_conversation ''s1'' example_store))) = [] \<and>
   example_store ''x'' = None \<and>
   clear_conversation ''x'' example_store =
     (Inr [(''message'', JStr ''No conversation found for session x'')], example_store) \<and>
   http_status (fst (clear_conversation ''x'' example_store)) = 200 \<and>
   ''s1'' \<noteq> ''x'' \<and>
   snd (clear_conversation ''x'' example_store) ''s1'' = example_store ''s1''"
proof -
  have h1: "example_store ''s1'' \<noteq> None" and h2: "example_store ''x'' = None"
    by (simp_all add: example_store_def)
  have h3: "''s1'' \<noteq> ''x''" by simp
  from h1 h2 h3 clear_conversation_idempotent[of "''s1''" example_store]
    clear_conversation_idempotent[of "''x''" example_store]
  show ?thesis by (simp add: http_status_def)
qed

section \<open>The health endpoint\<close>

text \<open>
  Claim C7, as stated: the object returned by \<open>GET /\<close> has exactly the fields
  \<open>message\<close>, \<open>status\<close>, \<open>search_configured\<close> and \<open>completion_configured\<close>. The handler
  returns no field named \<open>completion_configured\<close>, here with neither client configured.
\<close>

theorem root_has_no_completion_configured_field:
  "set (map fst (root None None)) \<noteq>
     {''message'', ''status'', ''search_configured'', ''completion_configured''} \<and>
   map_of (root None None) ''completion_configured'' = None"
proof -
  have "''completion_configured'' \<notin> set (map fst (root None None))"
    by (simp add: root_def)
  moreover have "''completion_configured'' \<in>
     {''message'', ''status'', ''search_configured'', ''completion_configured''}"
    by simp
  ultimately have "set (map fst (root None None)) \<noteq>
     {''message'', ''status'', ''search_configured'', ''completion_configured''}"
    by metis
  then show ?thesis by (simp add: root_def)
qed

text \<open>
  Claim C7, amended: the object has exactly the fields \<open>message\<close>, \<open>status\<close>,
  \<open>search_configured\<close> and \<open>openai_configured\<close>, in this order; the first two are texts,
  and the two booleans tell whether the search client and the completion client are
  configured. The frontend and the test script read the field under this name.
\<close>

theorem root_fields:
  "map fst (root search_client openai_client) =
     [''message'', ''status'', ''search_configured'', ''openai_configured''] \<and>
   map_of (root search_client openai_client) ''search_configured'' =
     Some (JBool (search_client \<noteq> None)) \<and>
   map_of (root search_client openai_client) ''openai_configured'' =
     Some (JBool (openai_client \<noteq> None)) \<and>
   (\<exists>m s. map_of (root search_client openai_client) ''message'' = Some (JStr m) \<and>
          map_of (root search_client openai_client) ''status'' = Some (JStr s))"
  by (simp add: root_def)

section \<open>Records read by the ingestion script\<close>

text \<open>
  Claim C8. When \<open>read_documents\<close> returns, it has read every entry of the directory whose
  name matches \<open>*.txt\<close>, and it returns one record for each of them, in order: the
  \<open>filename\<close> is the full name, the \<open>content\<close> is the whole text, and the \<open>id\<close> is the
  stem of the name, which is the name without the final \<open>.txt\<close> (for a name that is more
  than the four characters \<open>.txt\<close>).
\<close>

theorem read_documents_records:
  assumes "read_documents data_dir = Inr documents"
  shows "\<exists>files.
     filter (\<lambda>entry. matches_txt (fst entry)) data_dir =
       map (\<lambda>(name, text). (name, Inr text)) files \<and>
     documents =
       map (\<lambda>(name, text). \<lparr>doc_id = stem name, doc_filename = name, doc_content = text\<rparr>)
         files \<and>
     (\<forall>(name, text) \<in> set files.
        \<exists>base. name = base @ ''.txt'' \<and> (base \<noteq> [] \<longrightarrow> stem name = base))"
proof -
  from assms have r: "read_files (glob_txt data_dir) [] = Inr documents"
    by (simp add: read_documents_def)
  then obtain files where f: "glob_txt data_dir = map (\<lambda>(name, text). (name, Inr text)) files"
    using read_files_ok_readable by blast
  with r read_files_readable[of files "[]"]
  have d: "documents =
       map (\<lambda>(name, text). \<lparr>doc_id = stem name, doc_filename = name, doc_content = text\<rparr>)
         files"
    by simp
  have "\<exists>base. name = base @ ''.txt'' \<and> (base \<noteq> [] \<longrightarrow> stem name = base)"
    if "(name, contents) \<in> set files" for name contents
  proof -
    from that have "(\<lambda>(name, text). (name, Inr text)) (name, contents)
        \<in> (\<lambda>(name, text). (name, Inr text)) ` set files"
      by (rule imageI)
    with f have "(name, Inr contents) \<in> set (glob_txt data_dir)"
      by simp
    then have "matches_txt name" by (simp add: glob_txt_def)
    then obtain base where "name = base @ ''.txt''" using matches_txt_iff by blast
    then show ?thesis using stem_txt by blast
  qed
  with f d show ?thesis by (auto simp: glob_txt_def)
qed

theorem read_documents_records_witness:
  "read_documents example_directory =
     Inr [\<lparr>doc_id = ''notes'', doc_filename = ''notes.txt'', doc_content = ''first document''\<rparr>,
          \<lparr>doc_id = ''archive.tar'', doc_filename = ''archive.tar.txt'',
            doc_content = ''second document''\<rparr>] \<and>
   (\<exists>files.
     filter (\<lambda>entry. matches_txt (fst entry)) example_directory =
       map (\<lambda>(name, text). (name, Inr text)) files \<and>
     [\<lparr>doc_id = ''notes'', doc_filename = ''notes.txt'', doc_content = ''first document''\<rparr>,
      \<lparr>doc_id = ''archive.tar'', doc_filename = ''archive.tar.txt'',
        doc_content = ''second document''\<rparr>] =
       map (\<lambda>(name, text). \<lparr>doc_id = stem name, doc_filename = name, doc_content = text\<rparr>)
         files \<and>
     (\<forall>(name, text) \<in> set files.
        \<exists>base. name = base @ ''.txt'' \<and> (base \<noteq> [] \<longrightarrow> stem name = base)))"
proof -
  have h: "read_documents example_directory =
     Inr [\<lparr>doc_id = ''notes'', doc_filename = ''notes.txt'', doc_content = ''first document''\<rparr>,
          \<lparr>doc_id = ''archive.tar'', doc_filename = ''archive.tar.txt'',
            doc_content = ''second document''\<rparr>]"
    by (simp add: read_documents_def glob_txt_def matches_txt_def example_directory_def
          stem_def)
  from h read_documents_records[OF h] show ?thesis by (intro conjI) assumption+
qed

end
